theory Spec2Isabelle
  imports Main "HOL-Library.Word"
begin

section \<open>Errors\<close>

text \<open>
  Go errors as values. \<open>TraceErr\<close> is the wrapper that \<open>trace.Wrap\<close> puts around a
  plain error; a nil error is \<open>None\<close> of \<open>error option\<close>.
\<close>

datatype error =
    ErrCanceled
  | ErrDeadlineExceeded
  | ErrAccessDenied string
  | ErrConnection string
  | BadParameter string
  | ErrOther string
  | TraceErr error

fun trace_Wrap :: "error \<Rightarrow> error" where
  "trace_Wrap (TraceErr e) = TraceErr e"
| "trace_Wrap e = TraceErr e"

section \<open>The example whitelist plugin (package main, function run)\<close>

datatype State = StatePending | StateApproved | StateDenied

text \<open>\<open>OpUnknown\<close> stands for every operation value other than the three named ones,
  carrying its printed form; it is what the \<open>default\<close> branch of the switch receives.\<close>

datatype OpType = OpInit | OpPut | OpDelete | OpUnknown string

record Request =
  reqID :: string
  reqUser :: string
  reqState :: State

record Event =
  evType :: OpType
  evRequest :: Request

record Filter =
  filterState :: State

record Config =
  AuthServer :: string
  Whitelist :: "string list"

text \<open>What one iteration of the \<open>select\<close> receives: an event from \<open>watcher.Events()\<close>, or
  the closing of \<open>watcher.Done()\<close> together with the value of \<open>watcher.Error()\<close>.\<close>

datatype Recv = RecvEvent Event | RecvDone "error option"

text \<open>The lines written to stderr by \<open>eprintln\<close>, one constructor per format string.\<close>

datatype LogLine =
    WatcherInitialized
  | HandlingRequest Request
  | UserInWhitelist string
  | UserNotInWhitelist string
  | Ok
  | RequestExpired string

text \<open>
  The state threaded through the loop: the client (the connection to the auth server,
  whose type is left open), the record of every \<open>SetRequestState\<close> call made so far with
  the error it returned, and the lines printed to stderr.
\<close>

record 'c RunState =
  client :: 'c
  setStateCalls :: "(string \<times> State \<times> error option) list"
  stderr :: "LogLine list"

type_synonym 'c SetRequestState = "'c \<Rightarrow> string \<Rightarrow> State \<Rightarrow> error option \<times> 'c"

definition eprintln :: "LogLine \<Rightarrow> 'c RunState \<Rightarrow> 'c RunState" where
  "eprintln msg st = st\<lparr>stderr := stderr st @ [msg]\<rparr>"

text \<open>The labelled loop \<open>CheckWhitelist\<close>: the first equal entry sets the flag and breaks.\<close>

fun CheckWhitelist :: "string list \<Rightarrow> string \<Rightarrow> bool" where
  "CheckWhitelist [] u = False"
| "CheckWhitelist (user # rest) u = (if u = user then True else CheckWhitelist rest u)"

datatype Step = Continue | Return "error option"

definition handlePut ::
  "Config \<Rightarrow> 'c SetRequestState \<Rightarrow> Request \<Rightarrow> 'c RunState \<Rightarrow> Step \<times> 'c RunState" where
  "handlePut conf srs req st0 =
     (let st1 = eprintln (HandlingRequest req) st0;
          whitelisted = CheckWhitelist (Whitelist conf) (reqUser req);
          st2 = (if whitelisted then eprintln (UserInWhitelist (reqUser req)) st1
                 else eprintln (UserNotInWhitelist (reqUser req)) st1);
          state = (if whitelisted then StateApproved else StateDenied);
          res = srs (client st2) (reqID req) state;
          st3 = st2\<lparr>client := snd res,
                    setStateCalls := setStateCalls st2 @ [(reqID req, state, fst res)]\<rparr>
      in case fst res of
           Some err \<Rightarrow> (Return (Some (trace_Wrap err)), st3)
         | None \<Rightarrow> (Continue, eprintln Ok st3))"

fun handleEvent ::
  "Config \<Rightarrow> 'c SetRequestState \<Rightarrow> OpType \<Rightarrow> Request \<Rightarrow> 'c RunState \<Rightarrow> Step \<times> 'c RunState" where
  "handleEvent conf srs OpInit req st = (Continue, eprintln WatcherInitialized st)"
| "handleEvent conf srs OpPut req st = handlePut conf srs req st"
| "handleEvent conf srs OpDelete req st = (Continue, eprintln (RequestExpired (reqID req)) st)"
| "handleEvent conf srs (OpUnknown opname) req st =
     (Return (Some (BadParameter (''unexpected event operation '' @ opname))), st)"

datatype Outcome = Returned "error option" | Waiting

text \<open>
  The \<open>for { select { ... } }\<close> loop over what the two channels deliver. The list is the
  finite prefix delivered so far; when it is used up the loop has not returned and
  blocks in \<open>select\<close>, which is the outcome \<open>Waiting\<close>.
\<close>

fun eventLoop ::
  "Config \<Rightarrow> 'c SetRequestState \<Rightarrow> Recv list \<Rightarrow> 'c RunState \<Rightarrow> Outcome \<times> 'c RunState" where
  "eventLoop conf srs [] st = (Waiting, st)"
| "eventLoop conf srs (RecvDone werr # rest) st = (Returned werr, st)"
| "eventLoop conf srs (RecvEvent event # rest) st =
     (case handleEvent conf srs (evType event) (evRequest event) st of
        (Continue, st') \<Rightarrow> eventLoop conf srs rest st'
      | (Return err, st') \<Rightarrow> (Returned err, st'))"

text \<open>
  The collaborators of \<open>run\<close> that live outside this file: configuration loading, the
  client constructor, the watcher (given by what its channels deliver) and
  \<open>SetRequestState\<close>.
\<close>

record ('c, 't) Env =
  LoadConfig :: "string \<Rightarrow> error + Config"
  LoadTLSConfig :: "Config \<Rightarrow> error + 't"
  NewClient :: "string \<Rightarrow> 't \<Rightarrow> error + 'c"
  WatchRequests :: "'c \<Rightarrow> Filter \<Rightarrow> error + Recv list"
  SetRequestState :: "'c SetRequestState"


section \<open>The Jira webhook server (access/jira/webhook_server.go)\<close>

subsection \<open>Time, contexts and the HTTP vocabulary\<close>

text \<open>Instants and durations are counted in nanoseconds, as \<open>time.Duration\<close> does.\<close>

definition Millisecond :: int where
  "Millisecond = 1000000"

definition Second :: int where
  "Second = 1000 * Millisecond"

definition Unix :: "int \<Rightarrow> int" where
  "Unix now = now div Second"

record Context =
  ctxDeadline :: "int option"

text \<open>\<open>context.WithTimeout(parent, d)\<close> at instant \<open>now\<close>: the child's deadline is
  \<open>now + d\<close> unless the parent already has an earlier one, which is then kept.\<close>

definition WithTimeout :: "Context \<Rightarrow> int \<Rightarrow> int \<Rightarrow> Context" where
  "WithTimeout parent now timeout =
     (case ctxDeadline parent of
        Some cur \<Rightarrow> (if cur < now + timeout then parent
                     else parent\<lparr>ctxDeadline := Some (now + timeout)\<rparr>)
      | None \<Rightarrow> parent\<lparr>ctxDeadline := Some (now + timeout)\<rparr>)"

definition StatusOK :: nat where "StatusOK = 200"
definition StatusBadRequest :: nat where "StatusBadRequest = 400"
definition StatusInternalServerError :: nat where "StatusInternalServerError = 500"
definition StatusServiceUnavailable :: nat where "StatusServiceUnavailable = 503"

text \<open>The response writer records every status line written and the body bytes.\<close>

record ResponseWriter =
  rwStatus :: "nat list"
  rwBody :: string

definition WriteHeader :: "nat \<Rightarrow> ResponseWriter \<Rightarrow> ResponseWriter" where
  "WriteHeader code rw = rw\<lparr>rwStatus := rwStatus rw @ [code]\<rparr>"

text \<open>\<open>http.Error\<close> writes the status and then the message followed by a newline.\<close>

definition http_Error :: "ResponseWriter \<Rightarrow> string \<Rightarrow> nat \<Rightarrow> ResponseWriter" where
  "http_Error rw msg code =
     (let rw1 = WriteHeader code rw in rw1\<lparr>rwBody := rwBody rw1 @ msg @ [CHR 0x0A]\<rparr>)"

text \<open>An inbound request: its context, its headers and the outcome of reading its body.\<close>

record HTTPRequest =
  rqContext :: Context
  rqHeader :: "(string \<times> string) list"
  rqBody :: "error + string"

subsection \<open>Payload types\<close>

record WebhookIssue =
  issueID :: string
  issueSelf :: string
  issueKey :: string

record WebhookUser =
  userSelf :: string
  userAccountID :: string
  userAccountType :: string
  userDisplayName :: string
  userActive :: bool

record Webhook =
  HTTPRequestID :: string
  Timestamp :: int
  WebhookEvent :: string
  IssueEventTypeName :: string
  User :: "WebhookUser option"
  Issue :: "WebhookIssue option"

type_synonym WebhookFunc = "Context \<Rightarrow> Webhook \<Rightarrow> error option"

text \<open>The source documents the server so: \<^verbatim>\<open>WebhookServer is a wrapper around
  http.Server that processes JIRA webhook events. It verifies incoming requests and calls
  onWebhook for valid ones\<close>. Its fields hold no secret to verify with.\<close>

record WebhookServer =
  onWebhook :: WebhookFunc
  counter :: "64 word"

text \<open>The parts of the handler's surroundings that are library code: \<open>json.Unmarshal\<close>
  into an already initialised struct, and the two error classifiers of package utils.\<close>

record Lib =
  Unmarshal :: "string \<Rightarrow> Webhook \<Rightarrow> error + Webhook"
  IsCanceled :: "error \<Rightarrow> bool"
  IsDeadline :: "error \<Rightarrow> bool"

datatype LogEntry =
    LogError string string error
  | LogDebug string error

subsection \<open>Printing integers, for the request id\<close>

definition digit :: "nat \<Rightarrow> char" where
  "digit d = char_of (48 + d)"

fun showNat :: "nat \<Rightarrow> string" where
  "showNat n = (if n < 10 then [digit n] else showNat (n div 10) @ [digit (n mod 10)])"

declare showNat.simps [simp del]

definition showInt :: "int \<Rightarrow> string" where
  "showInt i = (if i < 0 then CHR ''-'' # showNat (nat (- i)) else showNat (nat i))"

text \<open>The id built from the Unix time and the value returned by \<open>atomic.AddUint64\<close>.\<close>

definition httpRequestID :: "int \<Rightarrow> 64 word \<Rightarrow> string" where
  "httpRequestID now n = showInt (Unix now) @ ''-'' @ showNat (unat n)"

subsection \<open>processWebhook\<close>

text \<open>
  What one call of the handler leaves behind: the server with its counter advanced, the
  response writer, the log entries, and the calls made to \<open>onWebhook\<close> with the context
  and payload handed over. The argument \<open>now\<close> is the clock at the call; the two
  readings the handler takes (for the deadline and for the request id) are taken to be
  the same instant. \<open>onWebhook\<close> is a function of the server value and returns.
\<close>

record Handled =
  hdServer :: WebhookServer
  hdWriter :: ResponseWriter
  hdLog :: "LogEntry list"
  hdCalls :: "(Context \<times> Webhook) list"

definition emptyWebhook :: Webhook where
  "emptyWebhook = \<lparr>HTTPRequestID = [], Timestamp = 0, WebhookEvent = [],
     IssueEventTypeName = [], User = None, Issue = None\<rparr>"

definition processWebhook ::
  "Lib \<Rightarrow> WebhookServer \<Rightarrow> ResponseWriter \<Rightarrow> HTTPRequest \<Rightarrow> int \<Rightarrow> Handled" where
  "processWebhook lib s rw r now =
     (let ctx = WithTimeout (rqContext r) now (Millisecond * 2500);
          s1 = s\<lparr>counter := counter s + 1\<rparr>;
          hid = httpRequestID now (counter s1);
          webhook = emptyWebhook\<lparr>HTTPRequestID := hid\<rparr>
      in case rqBody r of
           Inl err \<Rightarrow>
             \<lparr>hdServer = s1,
              hdWriter = http_Error rw [] StatusInternalServerError,
              hdLog = [LogError hid ''Failed to read webhook payload'' err],
              hdCalls = []\<rparr>
         | Inr body \<Rightarrow>
          (case Unmarshal lib body webhook of
             Inl err \<Rightarrow>
               \<lparr>hdServer = s1,
                hdWriter = http_Error rw [] StatusBadRequest,
                hdLog = [LogError hid ''Failed to parse webhook payload'' err],
                hdCalls = []\<rparr>
           | Inr webhook' \<Rightarrow>
            (case onWebhook s ctx webhook' of
               Some err \<Rightarrow>
                 (let code = (if IsCanceled lib err \<or> IsDeadline lib err
                              then StatusServiceUnavailable
                              else StatusInternalServerError)
                  in \<lparr>hdServer = s1,
                      hdWriter = http_Error rw [] code,
                      hdLog = [LogError hid ''Failed to process webhook'' err,
                               LogDebug hid err],
                      hdCalls = [(ctx, webhook')]\<rparr>)
             | None \<Rightarrow>
                 \<lparr>hdServer = s1,
                  hdWriter = WriteHeader StatusOK rw,
                  hdLog = [],
                  hdCalls = [(ctx, webhook')]\<rparr>)))"

section \<open>Measures on a run and concrete inputs\<close>



text \<open>The state the plugin proposes for a request.\<close>

definition decided :: "Config \<Rightarrow> Request \<Rightarrow> State" where
  "decided conf req = (if reqUser req \<in> set (Whitelist conf) then StateApproved else StateDenied)"

definition RecvInit :: Recv where
  "RecvInit = RecvEvent \<lparr>evType = OpInit,
     evRequest = \<lparr>reqID = [], reqUser = [], reqState = StatePending\<rparr>\<rparr>"

definition RecvPut :: "Request \<Rightarrow> Recv" where
  "RecvPut req = RecvEvent \<lparr>evType = OpPut, evRequest = req\<rparr>"

text \<open>An authority that accepts every transition, and one that fails for one id.\<close>

definition acceptAll :: "unit SetRequestState" where
  "acceptAll c rid s = (None, c)"

definition failFor :: "string \<Rightarrow> unit SetRequestState" where
  "failFor bad c rid s = (if rid = bad then Some (ErrOther ''unavailable'') else None, c)"

definition exampleConf :: Config where
  "exampleConf = \<lparr>AuthServer = ''auth.example.com:3025'', Whitelist = [''alice'', ''bob'']\<rparr>"

definition reqR1 :: Request where
  "reqR1 = \<lparr>reqID = ''r1'', reqUser = ''mallory'', reqState = StatePending\<rparr>"

definition reqR2 :: Request where
  "reqR2 = \<lparr>reqID = ''r2'', reqUser = ''alice'', reqState = StatePending\<rparr>"

definition state0 :: "unit RunState" where
  "state0 = \<lparr>client = (), setStateCalls = [], stderr = []\<rparr>"


text \<open>A decoder that accepts bodies opening a JSON object, and classifiers that look
  through one layer of wrapping.\<close>

fun unmarshalBraces :: "string \<Rightarrow> Webhook \<Rightarrow> error + Webhook" where
  "unmarshalBraces [] w = Inl (ErrOther ''unexpected end of JSON input'')"
| "unmarshalBraces (c # cs) w =
     (if c = CHR ''{'' then Inr w else Inl (ErrOther ''invalid character''))"

fun unwrapErr :: "error \<Rightarrow> error" where
  "unwrapErr (TraceErr e) = e"
| "unwrapErr e = e"

definition exampleLib :: Lib where
  "exampleLib = \<lparr>Unmarshal = unmarshalBraces,
     IsCanceled = (\<lambda>e. unwrapErr e = ErrCanceled),
     IsDeadline = (\<lambda>e. unwrapErr e = ErrDeadlineExceeded)\<rparr>"

definition okServer :: WebhookServer where
  "okServer = \<lparr>onWebhook = (\<lambda>ctx w. None), counter = 0\<rparr>"

definition slowServer :: WebhookServer where
  "slowServer = \<lparr>onWebhook = (\<lambda>ctx w. Some (TraceErr ErrDeadlineExceeded)), counter = 41\<rparr>"

definition freshWriter :: ResponseWriter where
  "freshWriter = \<lparr>rwStatus = [], rwBody = []\<rparr>"

definition background :: Context where
  "background = \<lparr>ctxDeadline = None\<rparr>"

text \<open>Two requests with the same headers (a timestamp of the year 1970 and a made-up
  signature) and different bodies, and one whose body is not JSON.\<close>

definition staleHeaders :: "(string \<times> string) list" where
  "staleHeaders = [(''X-Slack-Request-Timestamp'', ''0''), (''X-Slack-Signature'', ''v0=00'')]"

definition forgedA :: HTTPRequest where
  "forgedA = \<lparr>rqContext = background, rqHeader = staleHeaders,
     rqBody = Inr ''{}''\<rparr>"


definition garbled :: HTTPRequest where
  "garbled = \<lparr>rqContext = background, rqHeader = [], rqBody = Inr ''issue=1''\<rparr>"

definition t0 :: int where
  "t0 = 1600000000 * Second"

section \<open>Auxiliary facts about the example plugin\<close>

lemma CheckWhitelist_set: "CheckWhitelist wl u = (u \<in> set wl)"
  by (induction wl) auto

lemma handlePut_calls:
  "setStateCalls (snd (handlePut conf srs req st)) =
     setStateCalls st @
       [(reqID req, decided conf req, fst (srs (client st) (reqID req) (decided conf req)))]"
  by (simp add: handlePut_def Let_def eprintln_def CheckWhitelist_set decided_def
      split: option.splits)

lemma handlePut_step:
  "fst (handlePut conf srs req st) =
     (case fst (srs (client st) (reqID req) (decided conf req)) of
        Some err \<Rightarrow> Return (Some (trace_Wrap err))
      | None \<Rightarrow> Continue)"
  by (simp add: handlePut_def Let_def eprintln_def CheckWhitelist_set decided_def
      split: option.splits)




section \<open>The example plugin: Put, Delete and the end of the loop\<close>

text \<open>
  C10. Handling a Put event makes exactly one \<open>SetRequestState\<close> call, for the request's
  id, with \<open>StateApproved\<close> when the request's user is an entry of the configured
  whitelist and with \<open>StateDenied\<close> otherwise.
\<close>

theorem put_decides_by_whitelist:
  "setStateCalls (snd (handleEvent conf srs OpPut req st)) =
     setStateCalls st @
       [(reqID req,
         (if reqUser req \<in> set (Whitelist conf) then StateApproved else StateDenied),
         fst (srs (client st) (reqID req)
               (if reqUser req \<in> set (Whitelist conf) then StateApproved else StateDenied)))]"
  using handlePut_calls [of conf srs req st] by (simp add: decided_def)

text \<open>
  C6. A Delete event, for any request id (seen before or not), does not fail: the loop
  goes on with the next delivery, no \<open>SetRequestState\<close> call is made and the client is
  untouched. The only trace is the line printed to stderr.
\<close>

theorem delete_is_noop:
  "handleEvent conf srs OpDelete req st =
     (Continue, st\<lparr>stderr := stderr st @ [RequestExpired (reqID req)]\<rparr>) \<and>
   client (snd (handleEvent conf srs OpDelete req st)) = client st \<and>
   setStateCalls (snd (handleEvent conf srs OpDelete req st)) = setStateCalls st \<and>
   eventLoop conf srs (RecvEvent \<lparr>evType = OpDelete, evRequest = req\<rparr> # rest) st =
     eventLoop conf srs rest (st\<lparr>stderr := stderr st @ [RequestExpired (reqID req)]\<rparr>)"
  by (simp add: eprintln_def)

text \<open>
  C1, as the code has it. The example plugin keeps no record of the requests it has
  handled: every delivery of a Put calls \<open>SetRequestState\<close> again. When the authority
  accepts the calls, \<open>n\<close> deliveries of the same Put make \<open>n\<close> calls.
\<close>

theorem duplicate_put_calls_again:
  assumes "\<And>c. fst (srs c (reqID req) (decided conf req)) = None"
  shows "setStateCalls (snd (eventLoop conf srs (replicate n (RecvPut req)) st)) =
         setStateCalls st @ replicate n (reqID req, decided conf req, None)"
proof (induction n arbitrary: st)
  case 0
  then show ?case by simp
next
  case (Suc n)
  have s: "fst (handlePut conf srs req st) = Continue"
    by (simp add: handlePut_step assms)
  have c: "setStateCalls (snd (handlePut conf srs req st)) =
      setStateCalls st @ [(reqID req, decided conf req, None)]"
    by (simp add: handlePut_calls assms)
  obtain st' where h: "handlePut conf srs req st = (Continue, st')"
    using s by (cases "handlePut conf srs req st") simp
  have "setStateCalls (snd (eventLoop conf srs (replicate n (RecvPut req)) st')) =
         setStateCalls st' @ replicate n (reqID req, decided conf req, None)"
    by (rule Suc.IH)
  with h c show ?case by (simp add: RecvPut_def replicate_append_same)
qed

text \<open>C1, an instance: three deliveries of the Put for \<open>r2\<close> make three calls.\<close>

theorem duplicate_put_calls_again_witness:
  "(\<forall>c. fst (acceptAll c (reqID reqR2) (decided exampleConf reqR2)) = None) \<and>
   setStateCalls (snd (eventLoop exampleConf acceptAll (replicate 3 (RecvPut reqR2)) state0)) =
     [(''r2'', StateApproved, None), (''r2'', StateApproved, None),
      (''r2'', StateApproved, None)]"
proof -
  have h: "\<And>c. fst (acceptAll c (reqID reqR2) (decided exampleConf reqR2)) = None"
    by (simp add: acceptAll_def)
  show ?thesis
    using duplicate_put_calls_again [of acceptAll reqR2 exampleConf 3 state0, OF h] h
    by (simp add: decided_def exampleConf_def reqR2_def state0_def eval_nat_numeral)
qed

text \<open>C1, as stated, fails: the Put for \<open>r1\<close> delivered twice, with nothing changed in
  between, calls \<open>SetRequestState\<close> twice.\<close>

theorem duplicate_put_not_idempotent:
  "setStateCalls (snd (eventLoop exampleConf acceptAll [RecvPut reqR1, RecvPut reqR1] state0)) =
     [(''r1'', StateDenied, None), (''r1'', StateDenied, None)]"
  by (simp add: RecvPut_def handlePut_def Let_def eprintln_def exampleConf_def acceptAll_def
      reqR1_def state0_def)






text \<open>
  C5, as the code has it. When \<open>SetRequestState\<close> fails for the request of a Put, the loop
  returns the wrapped error at once: whatever is delivered afterwards, for this or any
  other request, is not handled.
\<close>

theorem failed_put_ends_loop:
  assumes "fst (srs (client st) (reqID req) (decided conf req)) = Some err"
  shows "eventLoop conf srs (RecvPut req # rest) st = eventLoop conf srs [RecvPut req] st
       \<and> fst (eventLoop conf srs (RecvPut req # rest) st) = Returned (Some (trace_Wrap err))"
proof -
  have s: "fst (handlePut conf srs req st) = Return (Some (trace_Wrap err))"
    by (simp add: handlePut_step assms)
  obtain st' where h: "handlePut conf srs req st = (Return (Some (trace_Wrap err)), st')"
    using s by (cases "handlePut conf srs req st") simp
  show ?thesis using h by (simp add: RecvPut_def)
qed

text \<open>C5, an instance: the authority fails for \<open>r1\<close>, and the deliveries after the Put
  for \<open>r1\<close> change nothing.\<close>

theorem failed_put_ends_loop_witness:
  "fst (failFor ''r1'' (client state0) (reqID reqR1) (decided exampleConf reqR1))
     = Some (ErrOther ''unavailable'') \<and>
   eventLoop exampleConf (failFor ''r1'') (RecvPut reqR1 # [RecvPut reqR2, RecvInit]) state0
     = eventLoop exampleConf (failFor ''r1'') [RecvPut reqR1] state0 \<and>
   fst (eventLoop exampleConf (failFor ''r1'') (RecvPut reqR1 # [RecvPut reqR2, RecvInit]) state0)
     = Returned (Some (TraceErr (ErrOther ''unavailable'')))"
proof -
  have h: "fst (failFor ''r1'' (client state0) (reqID reqR1) (decided exampleConf reqR1))
      = Some (ErrOther ''unavailable'')"
    by (simp add: failFor_def reqR1_def)
  have w: "trace_Wrap (ErrOther ''unavailable'') = TraceErr (ErrOther ''unavailable'')"
    by simp
  show ?thesis
    using failed_put_ends_loop [of "failFor ''r1''" state0 reqR1 exampleConf
        "ErrOther ''unavailable''" "[RecvPut reqR2, RecvInit]", OF h] h
    unfolding w by blast
qed

text \<open>C5, as stated, fails: the failure for \<open>r1\<close> ends the loop, and the Put for \<open>r2\<close>
  that follows never reaches \<open>SetRequestState\<close>.\<close>

theorem failure_stops_other_requests:
  "fst (eventLoop exampleConf (failFor ''r1'') [RecvPut reqR1, RecvPut reqR2] state0) =
     Returned (Some (TraceErr (ErrOther ''unavailable''))) \<and>
   setStateCalls (snd (eventLoop exampleConf (failFor ''r1'') [RecvPut reqR1, RecvPut reqR2]
       state0)) =
     [(''r1'', StateDenied, Some (ErrOther ''unavailable''))]"
  by (simp add: RecvPut_def handlePut_def Let_def eprintln_def exampleConf_def
      failFor_def reqR1_def reqR2_def state0_def)

section \<open>The Jira webhook handler: statuses, deadline, headers\<close>

text \<open>The one status the handler writes, by the stage at which the request stops.\<close>

lemma processWebhook_status:
  "rwStatus (hdWriter (processWebhook lib s rw r now)) = rwStatus rw @
     [case rqBody r of
        Inl e \<Rightarrow> StatusInternalServerError
      | Inr body \<Rightarrow>
         (case Unmarshal lib body
                 (emptyWebhook\<lparr>HTTPRequestID := httpRequestID now (counter s + 1)\<rparr>) of
            Inl e \<Rightarrow> StatusBadRequest
          | Inr w \<Rightarrow>
             (case onWebhook s (WithTimeout (rqContext r) now (Millisecond * 2500)) w of
                None \<Rightarrow> StatusOK
              | Some e \<Rightarrow>
                  if IsCanceled lib e \<or> IsDeadline lib e then StatusServiceUnavailable
                  else StatusInternalServerError))]"
  by (simp add: processWebhook_def Let_def http_Error_def WriteHeader_def
      split: sum.splits option.splits)

text \<open>
  C7. When the body has been read and \<open>json.Unmarshal\<close> fails on it, the handler answers
  400 and does not call \<open>onWebhook\<close>; 400 is not the 500 of internal failures.
\<close>

theorem decode_failure_is_bad_request:
  assumes "rqBody r = Inr body"
    and "Unmarshal lib body
           (emptyWebhook\<lparr>HTTPRequestID := httpRequestID now (counter s + 1)\<rparr>) = Inl err"
  shows "rwStatus (hdWriter (processWebhook lib s rw r now)) = rwStatus rw @ [StatusBadRequest]
       \<and> hdCalls (processWebhook lib s rw r now) = []
       \<and> StatusBadRequest = 400 \<and> StatusBadRequest \<noteq> StatusInternalServerError"
  using assms
  by (simp add: processWebhook_def Let_def http_Error_def WriteHeader_def
      StatusBadRequest_def StatusInternalServerError_def)

text \<open>C7, an instance: a form-encoded body where JSON is expected.\<close>

theorem decode_failure_is_bad_request_witness:
  "rqBody garbled = Inr ''issue=1'' \<and>
   Unmarshal exampleLib ''issue=1''
     (emptyWebhook\<lparr>HTTPRequestID := httpRequestID t0 (counter okServer + 1)\<rparr>)
       = Inl (ErrOther ''invalid character'') \<and>
   rwStatus (hdWriter (processWebhook exampleLib okServer freshWriter garbled t0)) = [400] \<and>
   hdCalls (processWebhook exampleLib okServer freshWriter garbled t0) = []"
proof -
  have a: "rqBody garbled = Inr ''issue=1''"
    by (simp add: garbled_def)
  have b: "Unmarshal exampleLib ''issue=1''
     (emptyWebhook\<lparr>HTTPRequestID := httpRequestID t0 (counter okServer + 1)\<rparr>)
       = Inl (ErrOther ''invalid character'')"
    by (simp add: exampleLib_def)
  show ?thesis
    using decode_failure_is_bad_request [OF a b, of freshWriter] a b
    by (simp add: freshWriter_def)
qed

text \<open>
  C8. Every call of the handler writes exactly one status. It is 200 when \<open>onWebhook\<close>
  returns no error, 503 when its error is a cancellation or an expired deadline, and 500
  for any other error of \<open>onWebhook\<close>; before that stage, 500 when the body cannot be
  read and 400 when it cannot be decoded. The handler itself has no loop: it answers as
  soon as \<open>onWebhook\<close> has returned.
\<close>

theorem exactly_one_status:
  "rwStatus (hdWriter (processWebhook lib s rw r now)) = rwStatus rw @
     [case rqBody r of
        Inl e \<Rightarrow> StatusInternalServerError
      | Inr body \<Rightarrow>
         (case Unmarshal lib body
                 (emptyWebhook\<lparr>HTTPRequestID := httpRequestID now (counter s + 1)\<rparr>) of
            Inl e \<Rightarrow> StatusBadRequest
          | Inr w \<Rightarrow>
             (case onWebhook s (WithTimeout (rqContext r) now (Millisecond * 2500)) w of
                None \<Rightarrow> StatusOK
              | Some e \<Rightarrow>
                  if IsCanceled lib e \<or> IsDeadline lib e then StatusServiceUnavailable
                  else StatusInternalServerError))]
   \<and> length (rwStatus (hdWriter (processWebhook lib s rw r now))) = length (rwStatus rw) + 1"
  by (simp add: processWebhook_status)

text \<open>C8, two instances: a callback that runs into its deadline, and one that succeeds.\<close>

theorem exactly_one_status_witness:
  "rwStatus (hdWriter (processWebhook exampleLib slowServer freshWriter forgedA t0)) = [503] \<and>
   rwStatus (hdWriter (processWebhook exampleLib okServer freshWriter forgedA t0)) = [200]"
  using exactly_one_status [of exampleLib slowServer freshWriter forgedA t0]
        exactly_one_status [of exampleLib okServer freshWriter forgedA t0]
  by (simp add: exampleLib_def slowServer_def okServer_def freshWriter_def forgedA_def
      StatusServiceUnavailable_def StatusOK_def)

text \<open>
  C9. The context the handler derives has a deadline at most 2500 milliseconds after the
  instant of the call, which is less than five seconds, and it is the only context ever
  handed to \<open>onWebhook\<close>.
\<close>

theorem webhook_deadline_bounded:
  "(\<exists>d. ctxDeadline (WithTimeout (rqContext r) now (Millisecond * 2500)) = Some d
        \<and> d \<le> now + 2500 * Millisecond \<and> d - now < 5 * Second)
   \<and> set (map fst (hdCalls (processWebhook lib s rw r now)))
        \<subseteq> {WithTimeout (rqContext r) now (Millisecond * 2500)}"
  by (simp add: processWebhook_def Let_def WithTimeout_def Millisecond_def Second_def
      split: sum.splits option.splits)

text \<open>C9, an instance: a request without a deadline of its own gets the deadline
  \<open>t0 + 2.5 s\<close>, and \<open>onWebhook\<close> is called with it.\<close>

theorem webhook_deadline_bounded_witness:
  "map (\<lambda>c. ctxDeadline (fst c))
     (hdCalls (processWebhook exampleLib okServer freshWriter forgedA t0))
     = [Some (t0 + 2500000000)]"
  using webhook_deadline_bounded [of forgedA t0 exampleLib okServer freshWriter]
  by (simp add: processWebhook_def Let_def WithTimeout_def Millisecond_def Second_def
      exampleLib_def okServer_def forgedA_def background_def)


end
